theory Spec2Isabelle
  imports Main "HOL-Library.Word" "HOL-Library.Log_Nat"
begin

section \<open>The zkLogin helpers of the wallet (background/accounts/zk/utils.ts)\<close>

text \<open>
  The file \<^verbatim>\<open>utils.ts\<close> holds four functions: \<^verbatim>\<open>prepareZKLogin\<close>, \<^verbatim>\<open>zkLogin\<close>,
  \<^verbatim>\<open>fetchSalt\<close> and \<^verbatim>\<open>createPartialZKSignature\<close>. Each is embedded below as a HOL
  function. What they reach outside the file (the entropy source, the browser's identity
  API, the network, the SDK's \<^verbatim>\<open>generateNonce\<close>, the provider table) is an argument of the
  embedding. Strings are byte strings: a JavaScript string stands for its UTF-8 encoding.
\<close>

subsection \<open>JavaScript values\<close>

type_synonym byte = "8 word"

text \<open>
  A \<^verbatim>\<open>number\<close> is an IEEE 754 double. The epochs of this file are integers, so a number is
  modelled by the integer it holds, and the result of an arithmetic operation is the exact
  result rounded to the nearest double, ties to the even significand (53 bits). The
  magnitudes of this file stay far below the overflow threshold \<open>2 ^ 1024\<close>.
\<close>

definition roundToDouble :: "int \<Rightarrow> int" where
  "roundToDouble n =
     (let m = \<bar>n\<bar>; e = bitlen m - 53 in
      if e \<le> 0 then n
      else
        let u = 2 ^ nat e; q = m div u; r = m mod u;
            q' = (if u < 2 * r \<or> (2 * r = u \<and> odd q) then q + 1 else q)
        in sgn n * (q' * u))"

definition number_add :: "int \<Rightarrow> int \<Rightarrow> int" where
  "number_add a b = roundToDouble (a + b)"

text \<open>
  A \<^verbatim>\<open>bigint\<close> is an \<open>int\<close>. \<^verbatim>\<open>toBigIntBE(buf)\<close> of bigint-buffer reads the bytes as one
  big-endian unsigned integer; \<^verbatim>\<open>toString()\<close> of a bigint writes it in decimal, with a
  minus sign when negative.
\<close>

definition toBigIntBE :: "byte list \<Rightarrow> int" where
  "toBigIntBE buf = foldl (\<lambda>acc b. acc * 256 + uint b) 0 buf"

fun natToString :: "nat \<Rightarrow> string" where
  "natToString n =
     (if n < 10 then [char_of (48 + n)]
      else natToString (n div 10) @ [char_of (48 + n mod 10)])"

definition bigint_toString :: "int \<Rightarrow> string" where
  "bigint_toString i =
     (if i < 0 then CHR ''-'' # natToString (nat (- i)) else natToString (nat i))"

text \<open>
  The inverse direction is not in \<^verbatim>\<open>utils.ts\<close>; it is the decoder a receiver of the decimal
  string applies: \<^verbatim>\<open>BigInt(s)\<close> on a string of digits, then \<^verbatim>\<open>toBufferBE(n, width)\<close> of
  bigint-buffer, which writes \<open>n\<close> big-endian into \<open>width\<close> bytes.
\<close>

definition isDigit :: "char \<Rightarrow> bool" where
  "isDigit c = (48 \<le> (of_char c :: nat) \<and> (of_char c :: nat) \<le> 57)"

definition parseDecimal :: "string \<Rightarrow> int" where
  "parseDecimal s = foldl (\<lambda>acc c. acc * 10 + (of_char c - 48)) 0 s"

fun toBufferBE :: "int \<Rightarrow> nat \<Rightarrow> byte list" where
  "toBufferBE n 0 = []"
| "toBufferBE n (Suc w) = toBufferBE (n div 256) w @ [word_of_int (n mod 256)]"

text \<open>A parsed JSON document, and a JavaScript value that may also be \<^verbatim>\<open>undefined\<close>.\<close>

datatype json =
    JNull
  | JBool bool
  | JNumber int
  | JString string
  | JArray "json list"
  | JObject "(string \<times> json) list"

datatype js_value = Undefined | Value json

datatype error =
    Error string \<comment> \<open>\<^verbatim>\<open>new Error(message)\<close>, thrown by this file\<close>
  | TypeError string \<comment> \<open>thrown by the language or by \<^verbatim>\<open>new URL\<close>\<close>
  | Rejected string \<comment> \<open>the rejection of a promise of an outside service\<close>

text \<open>
  Reading the property \<open>k\<close> of a parsed JSON value, for a key that no prototype defines
  (such as \<^verbatim>\<open>salt\<close>): \<^verbatim>\<open>null\<close> throws, an object gives its field or \<^verbatim>\<open>undefined\<close>, every
  other value gives \<^verbatim>\<open>undefined\<close>. The keys of a parsed object are distinct.
\<close>

definition getProperty :: "json \<Rightarrow> string \<Rightarrow> error + js_value" where
  "getProperty v k =
     (case v of
        JNull \<Rightarrow> Inl (TypeError ''Cannot read properties of null'')
      | JObject fields \<Rightarrow>
          (case map_of fields k of None \<Rightarrow> Inr Undefined | Some x \<Rightarrow> Inr (Value x))
      | _ \<Rightarrow> Inr Undefined)"

subsection \<open>base64url and URLSearchParams\<close>

definition base64urlChar :: "nat \<Rightarrow> char" where
  "base64urlChar n =
     (if n < 26 then char_of (65 + n)
      else if n < 52 then char_of (71 + n)
      else if n < 62 then char_of (n - 4)
      else if n = 62 then CHR ''-'' else CHR ''_'')"

text \<open>\<^verbatim>\<open>base64url.encode\<close> of jose: base64 with the URL-safe alphabet and no padding.\<close>

fun base64url_encode :: "byte list \<Rightarrow> string" where
  "base64url_encode (a # b # c # rest) =
     (let n = unat a * 65536 + unat b * 256 + unat c
      in [base64urlChar (n div 262144), base64urlChar (n div 4096 mod 64),
          base64urlChar (n div 64 mod 64), base64urlChar (n mod 64)] @ base64url_encode rest)"
| "base64url_encode [a, b] =
     (let n = unat a * 1024 + unat b * 4
      in [base64urlChar (n div 4096), base64urlChar (n div 64 mod 64), base64urlChar (n mod 64)])"
| "base64url_encode [a] =
     (let n = unat a * 16 in [base64urlChar (n div 64), base64urlChar (n mod 64)])"
| "base64url_encode [] = []"

text \<open>
  \<^verbatim>\<open>URLSearchParams\<close> is an ordered list of name-value pairs. \<^verbatim>\<open>toString()\<close> is the
  application/x-www-form-urlencoded serializer of the URL Standard: a space becomes \<open>+\<close>,
  the ASCII letters, digits and \<^verbatim>\<open>* - . _\<close> stay, every other byte becomes \<^verbatim>\<open>%XX\<close>.
\<close>

type_synonym URLSearchParams = "(string \<times> string) list"

definition append_param :: "URLSearchParams \<Rightarrow> string \<Rightarrow> string \<Rightarrow> URLSearchParams" where
  "append_param params name v = params @ [(name, v)]"

definition hexDigit :: "nat \<Rightarrow> char" where
  "hexDigit n = (if n < 10 then char_of (48 + n) else char_of (55 + n))"

definition urlencodedSafe :: "char \<Rightarrow> bool" where
  "urlencodedSafe c =
     (let v = (of_char c :: nat)
      in (48 \<le> v \<and> v \<le> 57) \<or> (65 \<le> v \<and> v \<le> 90) \<or> (97 \<le> v \<and> v \<le> 122)
         \<or> v = 42 \<or> v = 45 \<or> v = 46 \<or> v = 95)"

definition urlencodedByte :: "char \<Rightarrow> string" where
  "urlencodedByte c =
     (if c = CHR '' '' then ''+''
      else if urlencodedSafe c then [c]
      else [CHR ''%'', hexDigit ((of_char c :: nat) div 16), hexDigit ((of_char c :: nat) mod 16)])"

definition urlencodedString :: "string \<Rightarrow> string" where
  "urlencodedString s = concat (map urlencodedByte s)"

fun joinWith :: "char \<Rightarrow> string list \<Rightarrow> string" where
  "joinWith sep [] = []"
| "joinWith sep [x] = x"
| "joinWith sep (x # y # rest) = x @ sep # joinWith sep (y # rest)"

definition urlencodedPair :: "string \<times> string \<Rightarrow> string" where
  "urlencodedPair p = urlencodedString (fst p) @ CHR ''='' # urlencodedString (snd p)"

definition URLSearchParams_toString :: "URLSearchParams \<Rightarrow> string" where
  "URLSearchParams_toString params = joinWith (CHR ''&'') (map urlencodedPair params)"

text \<open>
  \<^verbatim>\<open>new URLSearchParams(init)\<close> on a string drops one leading \<open>?\<close> and runs the urlencoded
  parser: split on \<open>&\<close>, skip the empty pieces, split each piece at its first \<open>=\<close>, turn
  \<open>+\<close> into a space, percent-decode. \<^verbatim>\<open>get(name)\<close> is the value of the first pair with that
  name, \<^verbatim>\<open>null\<close> (here \<open>None\<close>) when there is none. The parser's last step, decoding
  the bytes as UTF-8, is the identity on byte strings; the replacement of ill-formed
  sequences by U+FFFD is left out, which changes neither whether a value is empty nor
  whether a name is \<open>id_token\<close>.
\<close>

fun splitOn :: "char \<Rightarrow> string \<Rightarrow> string list" where
  "splitOn sep [] = [[]]"
| "splitOn sep (c # cs) =
     (if c = sep then [] # splitOn sep cs
      else (case splitOn sep cs of [] \<Rightarrow> [[c]] | p # ps \<Rightarrow> (c # p) # ps))"

definition isHexDigit :: "char \<Rightarrow> bool" where
  "isHexDigit c =
     (let v = (of_char c :: nat)
      in (48 \<le> v \<and> v \<le> 57) \<or> (65 \<le> v \<and> v \<le> 70) \<or> (97 \<le> v \<and> v \<le> 102))"

definition hexValue :: "char \<Rightarrow> nat" where
  "hexValue c =
     (let v = (of_char c :: nat)
      in if v \<le> 57 then v - 48 else if v \<le> 70 then v - 55 else v - 87)"

fun percentDecode :: "string \<Rightarrow> string" where
  "percentDecode (c # h1 # h2 # rest) =
     (if c = CHR ''%'' \<and> isHexDigit h1 \<and> isHexDigit h2
      then char_of (hexValue h1 * 16 + hexValue h2) # percentDecode rest
      else c # percentDecode (h1 # h2 # rest))"
| "percentDecode cs = cs"

definition urlencodedDecode :: "string \<Rightarrow> string" where
  "urlencodedDecode s = percentDecode (map (\<lambda>c. if c = CHR ''+'' then CHR '' '' else c) s)"

definition parsePair :: "string \<Rightarrow> string \<times> string" where
  "parsePair piece =
     (urlencodedDecode (takeWhile (\<lambda>c. c \<noteq> CHR ''='') piece),
      urlencodedDecode (drop 1 (dropWhile (\<lambda>c. c \<noteq> CHR ''='') piece)))"

definition urlencodedParse :: "string \<Rightarrow> URLSearchParams" where
  "urlencodedParse input = map parsePair (filter (\<lambda>piece. piece \<noteq> []) (splitOn (CHR ''&'') input))"

definition URLSearchParams_new :: "string \<Rightarrow> URLSearchParams" where
  "URLSearchParams_new init =
     urlencodedParse (case init of c # cs \<Rightarrow> (if c = CHR ''?'' then cs else init) | [] \<Rightarrow> init)"

definition get_param :: "URLSearchParams \<Rightarrow> string \<Rightarrow> string option" where
  "get_param params name = map_of params name"

subsection \<open>prepareZKLogin\<close>

text \<open>
  Objects are records of what their methods return: a public key gives its Sui bytes
  (\<^verbatim>\<open>toSuiBytes()\<close>), a keypair gives its public key (\<^verbatim>\<open>getPublicKey()\<close>).
\<close>

record PublicKey =
  toSuiBytes :: "byte list"

record Ed25519Keypair =
  getPublicKey :: PublicKey
  secretKey :: "byte list"

record LoginSession =
  ephemeralKeyPair :: Ed25519Keypair
  randomness :: int
  nonce :: string
  maxEpoch :: int

text \<open>
  \<^verbatim>\<open>prepareZKLogin(currentEpoch)\<close>. The arguments before \<open>currentEpoch\<close> are what the body
  takes from outside: \<^verbatim>\<open>generateNonce\<close> of the zklogin SDK, the keypair that
  \<^verbatim>\<open>new Ed25519Keypair()\<close> draws, and \<^verbatim>\<open>randomBytes\<close> as the bytes it draws for a length.
\<close>

definition prepareZKLogin ::
  "(PublicKey \<Rightarrow> int \<Rightarrow> int \<Rightarrow> string) \<Rightarrow> Ed25519Keypair \<Rightarrow> (nat \<Rightarrow> byte list) \<Rightarrow> int
     \<Rightarrow> LoginSession" where
  "prepareZKLogin generateNonce newKeypair randomBytes currentEpoch =
     (let maxEpoch = number_add currentEpoch 2;
          ephemeralKeyPair = newKeypair;
          randomness = toBigIntBE (randomBytes 16);
          nonce = generateNonce (getPublicKey ephemeralKeyPair) maxEpoch randomness
      in \<lparr>ephemeralKeyPair = ephemeralKeyPair, randomness = randomness,
           nonce = nonce, maxEpoch = maxEpoch\<rparr>)"

subsection \<open>zkLogin\<close>

text \<open>
  The provider table \<^verbatim>\<open>zkProviderDataMap\<close> lives in \<^verbatim>\<open>./providers\<close>; it is a field of the
  environment, with the type of providers left open. The environment also holds the
  browser's \<^verbatim>\<open>identity\<close> API, the URL parser behind \<^verbatim>\<open>new URL\<close> and the entropy source.
  Of a parsed URL only the fragment is read; the getter \<^verbatim>\<open>hash\<close> is the URL Standard's:
  empty for a missing or empty fragment, \<open>#\<close> followed by the fragment otherwise.
\<close>

record ZkProviderData =
  clientID :: string
  url :: string

record URL =
  fragment :: "string option"

definition hash :: "URL \<Rightarrow> string" where
  "hash u = (case fragment u of None \<Rightarrow> [] | Some f \<Rightarrow> (if f = [] then [] else CHR ''#'' # f))"

record 'p Env =
  zkProviderDataMap :: "'p \<Rightarrow> ZkProviderData"
  getRedirectURL :: string
  launchWebAuthFlow :: "string \<Rightarrow> error + string"
  newURL :: "string \<Rightarrow> error + URL"
  randomBytes :: "nat \<Rightarrow> byte list"

datatype prompt = select_account | consent

fun prompt_string :: "prompt \<Rightarrow> string" where
  "prompt_string select_account = ''select_account''"
| "prompt_string consent = ''consent''"

text \<open>
  Lines 38 to 55: the query parameters of the authorization request. \<^verbatim>\<open>!nonce\<close> holds for
  a missing and for an empty string, \<^verbatim>\<open>if (loginHint)\<close> for a present, non-empty one.
\<close>

definition zkLogin_params ::
  "'p Env \<Rightarrow> 'p \<Rightarrow> string option \<Rightarrow> string option \<Rightarrow> prompt option \<Rightarrow> URLSearchParams" where
  "zkLogin_params env provider nonceArg loginHint promptArg =
     (let nonce1 =
            (case nonceArg of
               None \<Rightarrow> base64url_encode (randomBytes env 20)
             | Some n \<Rightarrow> (if n = [] then base64url_encode (randomBytes env 20) else n));
          params = [];
          params = append_param params ''client_id'' (clientID (zkProviderDataMap env provider));
          params = append_param params ''response_type'' ''id_token'';
          params = append_param params ''redirect_uri'' (getRedirectURL env);
          params = append_param params ''scope'' ''openid email profile'';
          params = append_param params ''nonce'' nonce1;
          params =
            (case loginHint of
               None \<Rightarrow> params
             | Some h \<Rightarrow> (if h = [] then params else append_param params ''login_hint'' h));
          params =
            (case promptArg of
               None \<Rightarrow> params
             | Some p \<Rightarrow> append_param params ''prompt'' (prompt_string p))
      in params)"

definition zkLogin_authUrl ::
  "'p Env \<Rightarrow> 'p \<Rightarrow> string option \<Rightarrow> string option \<Rightarrow> prompt option \<Rightarrow> string" where
  "zkLogin_authUrl env provider nonceArg loginHint promptArg =
     url (zkProviderDataMap env provider) @ CHR ''?'' #
       URLSearchParams_toString (zkLogin_params env provider nonceArg loginHint promptArg)"

text \<open>
  \<^verbatim>\<open>zkLogin\<close> returns the URL it hands to \<^verbatim>\<open>launchWebAuthFlow\<close> together with its result:
  \<open>Inl\<close> an error for a rejected or thrown one, \<open>Inr\<close> the token it returns.
\<close>

definition zkLogin ::
  "'p Env \<Rightarrow> 'p \<Rightarrow> string option \<Rightarrow> string option \<Rightarrow> prompt option
     \<Rightarrow> string \<times> (error + string)" where
  "zkLogin env provider nonceArg loginHint promptArg =
     (let authUrl = zkLogin_authUrl env provider nonceArg loginHint promptArg
      in (authUrl,
          case launchWebAuthFlow env authUrl of
            Inl e \<Rightarrow> Inl e
          | Inr response \<Rightarrow>
              (case newURL env response of
                 Inl e \<Rightarrow> Inl e
               | Inr responseURL \<Rightarrow>
                   (let responseParams =
                          URLSearchParams_new (remove1 (CHR ''#'') (hash responseURL));
                        jwt = get_param responseParams ''id_token''
                    in case jwt of
                         None \<Rightarrow> Inl (Error ''JWT is missing'')
                       | Some t \<Rightarrow>
                           (if t = [] then Inl (Error ''JWT is missing'') else Inr t)))))"

subsection \<open>fetchSalt and createPartialZKSignature\<close>

text \<open>
  \<^verbatim>\<open>fetchWithSentry(name, url, init)\<close> lives in \<^verbatim>\<open>_src/shared/utils\<close>; it is an argument,
  a function from the call to a response or a rejection. The body of a request is kept as
  the JSON document that \<^verbatim>\<open>JSON.stringify\<close> writes out. Of a response only \<^verbatim>\<open>json()\<close> is
  read: the parsed body, or a rejection. Both functions return the calls they made together
  with their result; the arguments of the one call each makes are a definition of their own.
  The field \<^verbatim>\<open>method\<close> of the request is written \<open>method'\<close>.
\<close>

record RequestInit =
  method' :: string
  headers :: "(string \<times> string) list"
  body :: json

record Response =
  json :: "error + json"

type_synonym fetchCall = "string \<times> string \<times> RequestInit"

definition saltRegistryUrl :: string where
  "saltRegistryUrl = ''http://salt.api-devnet.mystenlabs.com''"

definition fetchSalt_request :: "string \<Rightarrow> fetchCall" where
  "fetchSalt_request jwt =
     (''fetchUserSalt'', saltRegistryUrl @ ''/get_salt'',
      \<lparr>method' = ''POST'',
       headers = [(''Content-Type'', ''application/json'')],
       body = JObject [(''token'', JString jwt)]\<rparr>)"

definition fetchSalt ::
  "(fetchCall \<Rightarrow> error + Response) \<Rightarrow> string \<Rightarrow> fetchCall list \<times> (error + js_value)" where
  "fetchSalt fetchWithSentry jwt =
     ([fetchSalt_request jwt],
      case fetchWithSentry (fetchSalt_request jwt) of
        Inl e \<Rightarrow> Inl e
      | Inr response \<Rightarrow>
          (case json response of
             Inl e \<Rightarrow> Inl e
           | Inr parsed \<Rightarrow> getProperty parsed ''salt''))"

datatype keyClaim = sub | email

fun keyClaim_string :: "keyClaim \<Rightarrow> string" where
  "keyClaim_string sub = ''sub''"
| "keyClaim_string email = ''email''"

record WalletInputs =
  jwt :: string
  ephemeralPublicKey :: PublicKey
  maxEpoch :: int
  jwtRandomness :: int
  userSalt :: int
  keyClaimName :: "keyClaim option"

definition zkProofsServerUrl :: string where
  "zkProofsServerUrl = ''http://185.209.177.123:8000''"

definition createPartialZKSignature_request :: "WalletInputs \<Rightarrow> fetchCall" where
  "createPartialZKSignature_request inputs =
     (let keyClaimName1 = (case keyClaimName inputs of None \<Rightarrow> sub | Some k \<Rightarrow> k)
      in (''createZKProofs'', zkProofsServerUrl @ ''/test/zkp'',
          \<lparr>method' = ''POST'',
           headers = [(''Content-Type'', ''application/json'')],
           body = JObject
             [(''jwt'', JString (jwt inputs)),
              (''eph_public_key'',
               JString (bigint_toString (toBigIntBE (toSuiBytes (ephemeralPublicKey inputs))))),
              (''max_epoch'', JNumber (maxEpoch inputs)),
              (''jwt_randomness'', JString (bigint_toString (jwtRandomness inputs))),
              (''subject_pin'', JString (bigint_toString (userSalt inputs))),
              (''key_claim_name'', JString (keyClaim_string keyClaimName1))]\<rparr>))"

definition createPartialZKSignature ::
  "(fetchCall \<Rightarrow> error + Response) \<Rightarrow> WalletInputs \<Rightarrow> fetchCall list \<times> (error + json)" where
  "createPartialZKSignature fetchWithSentry inputs =
     ([createPartialZKSignature_request inputs],
      case fetchWithSentry (createPartialZKSignature_request inputs) of
        Inl e \<Rightarrow> Inl e
      | Inr response \<Rightarrow> json response)"

text \<open>
  The type \<^verbatim>\<open>PartialZkSignature\<close> (lines 103 to 108) declares four required fields. A parsed
  JSON value has that shape when it is an object holding all four.
\<close>

definition hasRequiredFields :: "json \<Rightarrow> bool" where
  "hasRequiredFields v =
     (case v of
        JObject members \<Rightarrow>
          list_all (\<lambda>k. map_of members k \<noteq> None)
            [''proof_points'', ''address_seed'', ''claims'', ''header_base64'']
      | _ \<Rightarrow> False)"

subsection \<open>The login attempt\<close>

text \<open>
  Modelled from the spec: the orchestration of a login attempt (spec sections 4.6, 5 and 9)
  is not in \<^verbatim>\<open>utils.ts\<close>. The spec describes it as a two-slot completion tracker: the salt
  call and the proof call are issued for the same token, their completions arrive in either
  order, the first failure is propagated, and the attempt is complete only when both slots
  are filled. The outcome is \<open>None\<close> while the attempt is pending.
\<close>

datatype ('s, 'p) completion = SaltDone "error + 's" | ProofDone "error + 'p"

record ('s, 'p) tracker =
  saltSlot :: "'s option"
  proofSlot :: "'p option"
  failure :: "error option"

definition complete :: "('s, 'p) tracker \<Rightarrow> ('s, 'p) completion \<Rightarrow> ('s, 'p) tracker" where
  "complete t ev =
     (if failure t \<noteq> None then t
      else
        (case ev of
           SaltDone (Inl e) \<Rightarrow> t\<lparr>failure := Some e\<rparr>
         | SaltDone (Inr s) \<Rightarrow> t\<lparr>saltSlot := Some s\<rparr>
         | ProofDone (Inl e) \<Rightarrow> t\<lparr>failure := Some e\<rparr>
         | ProofDone (Inr p) \<Rightarrow> t\<lparr>proofSlot := Some p\<rparr>))"

definition outcome :: "('s, 'p) tracker \<Rightarrow> (error + 's \<times> 'p) option" where
  "outcome t =
     (case failure t of
        Some e \<Rightarrow> Some (Inl e)
      | None \<Rightarrow>
          (case (saltSlot t, proofSlot t) of
             (Some s, Some p) \<Rightarrow> Some (Inr (s, p))
           | _ \<Rightarrow> None))"

definition pending :: "('s, 'p) tracker" where
  "pending = \<lparr>saltSlot = None, proofSlot = None, failure = None\<rparr>"

definition loginAttempt ::
  "(string \<Rightarrow> error + 's) \<Rightarrow> (string \<Rightarrow> error + 'p) \<Rightarrow> bool \<Rightarrow> string
     \<Rightarrow> (error + 's \<times> 'p) option" where
  "loginAttempt resolveSalt assembleProof saltFirst token =
     outcome
       (foldl complete pending
          (if saltFirst
           then [SaltDone (resolveSalt token), ProofDone (assembleProof token)]
           else [ProofDone (assembleProof token), SaltDone (resolveSalt token)]))"

section \<open>Properties\<close>

subsection \<open>Numbers\<close>

lemma bitlen_le_53: "\<bar>n\<bar> \<le> 2 ^ 53 - 1 \<Longrightarrow> bitlen \<bar>n\<bar> \<le> 53"
proof (cases "\<bar>n\<bar> = 0")
  case True
  then show ?thesis by simp
next
  case False
  assume le: "\<bar>n\<bar> \<le> 2 ^ 53 - 1"
  from False have pos: "0 < \<bar>n\<bar>" by simp
  show ?thesis
  proof (rule ccontr)
    assume "\<not> bitlen \<bar>n\<bar> \<le> 53"
    then have "53 \<le> nat (bitlen \<bar>n\<bar> - 1)" by simp
    then have "(2::int) ^ 53 \<le> 2 ^ nat (bitlen \<bar>n\<bar> - 1)"
      by (rule power_increasing) simp
    also have "\<dots> \<le> \<bar>n\<bar>" using bitlen_bounds [OF pos] by simp
    finally show False using le by simp
  qed
qed

lemma roundToDouble_exact: "\<bar>n\<bar> \<le> 2 ^ 53 - 1 \<Longrightarrow> roundToDouble n = n"
  using bitlen_le_53 [of n] by (simp add: roundToDouble_def Let_def)

lemma roundToDouble_pow53: "roundToDouble (2 ^ 53) = 2 ^ 53"
  by code_simp

lemma number_add_exact:
  assumes "0 \<le> a" and "0 \<le> b" and "a + b \<le> 2 ^ 53"
  shows "number_add a b = a + b"
proof (cases "a + b = 2 ^ 53")
  case True
  then show ?thesis by (simp only: number_add_def roundToDouble_pow53)
next
  case False
  with assms have "\<bar>a + b\<bar> \<le> 2 ^ 53 - 1" by simp
  then show ?thesis unfolding number_add_def by (rule roundToDouble_exact)
qed

subsection \<open>Decimal strings and big-endian bytes\<close>

declare natToString.simps [simp del]

lemma parseDecimal_snoc: "parseDecimal (s @ [c]) = parseDecimal s * 10 + (of_char c - 48)"
  by (simp add: parseDecimal_def)

lemma of_char_digit: "d < 10 \<Longrightarrow> (of_char (char_of (48 + d :: nat)) :: int) = 48 + int d"
proof -
  assume d: "d < 10"
  have "(of_char (char_of (48 + d)) :: int) = int (of_char (char_of (48 + d)))"
    by (rule of_nat_of_char [symmetric])
  also have "\<dots> = int (48 + d)" using d by simp
  finally show ?thesis by simp
qed

lemma parseDecimal_natToString: "parseDecimal (natToString n) = int n"
proof (induction n rule: natToString.induct)
  case (1 n)
  show ?case
  proof (cases "n < 10")
    case True
    then show ?thesis
      by (subst natToString.simps) (simp add: parseDecimal_def of_char_digit)
  next
    case False
    have "parseDecimal (natToString n) = parseDecimal (natToString (n div 10)) * 10 + int (n mod 10)"
      using False by (subst natToString.simps) (simp add: parseDecimal_snoc of_char_digit)
    also have "\<dots> = int (n div 10) * 10 + int (n mod 10)" using 1 False by simp
    also have "\<dots> = int n" by (simp add: zdiv_int zmod_int)
    finally show ?thesis .
  qed
qed

lemma isDigit_digit: "d < 10 \<Longrightarrow> isDigit (char_of (48 + d :: nat))"
  by (simp add: isDigit_def)

lemma natToString_digits: "list_all isDigit (natToString n)"
proof (induction n rule: natToString.induct)
  case (1 n)
  show ?case
  proof (cases "n < 10")
    case True
    then show ?thesis by (subst natToString.simps) (simp add: isDigit_digit)
  next
    case False
    then show ?thesis using 1 by (subst natToString.simps) (simp add: isDigit_digit)
  qed
qed

lemma toBigIntBE_snoc: "toBigIntBE (bs @ [b]) = toBigIntBE bs * 256 + uint b"
  by (simp add: toBigIntBE_def)

lemma toBigIntBE_nonneg: "0 \<le> toBigIntBE bs"
  by (induction bs rule: rev_induct) (simp_all add: toBigIntBE_snoc toBigIntBE_def)

lemma uint_byte_lt: "uint (b :: byte) < 256"
  using uint_bounded [of b] by simp

lemma toBufferBE_toBigIntBE: "toBufferBE (toBigIntBE bs) (length bs) = bs"
proof (induction bs rule: rev_induct)
  case Nil
  show ?case by simp
next
  case (snoc b bs)
  have d: "(toBigIntBE bs * 256 + uint b) div 256 = toBigIntBE bs"
    using uint_byte_lt [of b] by simp
  have m: "(toBigIntBE bs * 256 + uint b) mod 256 = uint b"
    using uint_byte_lt [of b] by simp
  have "toBufferBE (toBigIntBE (bs @ [b])) (length (bs @ [b]))
          = toBufferBE ((toBigIntBE bs * 256 + uint b) div 256) (length bs)
            @ [word_of_int ((toBigIntBE bs * 256 + uint b) mod 256)]"
    by (simp only: toBigIntBE_snoc length_append_singleton toBufferBE.simps)
  also have "\<dots> = bs @ [b]" by (simp only: d m snoc word_of_int_uint)
  finally show ?case .
qed

lemma bigint_toString_nonneg: "0 \<le> i \<Longrightarrow> bigint_toString i = natToString (nat i)"
  by (simp add: bigint_toString_def)

lemma key_roundtrip: "toBufferBE (parseDecimal (bigint_toString (toBigIntBE bs))) (length bs) = bs"
  by (simp add: bigint_toString_nonneg toBigIntBE_nonneg parseDecimal_natToString toBufferBE_toBigIntBE)

lemma key_digits: "list_all isDigit (bigint_toString (toBigIntBE bs))"
  by (simp add: bigint_toString_nonneg toBigIntBE_nonneg natToString_digits)

subsection \<open>The urlencoded serializer and its parser\<close>

lemma of_char_hexDigit: "n < 16 \<Longrightarrow> (of_char (hexDigit n) :: nat) = (if n < 10 then 48 + n else 55 + n)"
  by (simp add: hexDigit_def)

lemma hexDigit_isHexDigit: "n < 16 \<Longrightarrow> isHexDigit (hexDigit n)"
  by (simp add: isHexDigit_def of_char_hexDigit Let_def)

lemma hexValue_hexDigit: "n < 16 \<Longrightarrow> hexValue (hexDigit n) = n"
  by (simp add: hexValue_def of_char_hexDigit Let_def)

lemma of_char_lt_256: "(of_char c :: nat) < 256"
proof -
  have "(of_char c :: nat) mod 256 < 256" by (rule mod_less_divisor) simp
  then show ?thesis by simp
qed

lemma of_char_div_16: "(of_char c :: nat) div 16 < 16"
proof -
  have "(of_char c :: nat) < 16 * 16" using of_char_lt_256 [of c] by simp
  then show ?thesis by (rule less_mult_imp_div_less)
qed

lemma hex_pair_roundtrip:
  "char_of (hexValue (hexDigit ((of_char c :: nat) div 16)) * 16 + hexValue (hexDigit ((of_char c :: nat) mod 16))) = c"
proof -
  have hi: "(of_char c :: nat) div 16 < 16" by (rule of_char_div_16)
  have lo: "(of_char c :: nat) mod 16 < 16" by simp
  have "(of_char c :: nat) div 16 * 16 + (of_char c :: nat) mod 16 = of_char c" by simp
  then show ?thesis by (simp only: hexValue_hexDigit [OF hi] hexValue_hexDigit [OF lo] char_of_char)
qed

lemma percentDecode_plain: "c \<noteq> CHR ''%'' \<Longrightarrow> percentDecode (c # r) = c # percentDecode r"
  by (cases r rule: percentDecode.cases) simp_all

lemma percentDecode_escape:
  "isHexDigit h1 \<Longrightarrow> isHexDigit h2 \<Longrightarrow>
   percentDecode (CHR ''%'' # h1 # h2 # r) = char_of (hexValue h1 * 16 + hexValue h2) # percentDecode r"
  by simp

lemma hexDigit_neq: "n < 16 \<Longrightarrow> (of_char x :: nat) < 48 \<or> (of_char x :: nat) = 61 \<or> (of_char x :: nat) = 63 \<Longrightarrow> hexDigit n \<noteq> x"
  using of_char_hexDigit [of n] by (auto split: if_splits)

lemma safe_neq: "urlencodedSafe c \<Longrightarrow> (of_char x :: nat) \<in> {32, 37, 38, 43, 61, 63} \<Longrightarrow> c \<noteq> x"
  by (auto simp add: urlencodedSafe_def Let_def)

lemma decode_byte:
  "percentDecode (map (\<lambda>c. if c = CHR ''+'' then CHR '' '' else c) (urlencodedByte c) @ r) = c # percentDecode r"
proof -
  have hi: "(of_char c :: nat) div 16 < 16" by (rule of_char_div_16)
  have lo: "(of_char c :: nat) mod 16 < 16" by simp
  consider (sp) "c = CHR '' ''" | (safe) "c \<noteq> CHR '' ''" "urlencodedSafe c" | (esc) "c \<noteq> CHR '' ''" "\<not> urlencodedSafe c"
    by blast
  then show ?thesis
  proof cases
    case sp
    then show ?thesis by (simp add: urlencodedByte_def percentDecode_plain)
  next
    case safe
    have "c \<noteq> CHR ''+''" "c \<noteq> CHR ''%''" using safe(2) by (auto dest: safe_neq [where x = "CHR ''+''"] safe_neq [where x = "CHR ''%''"])
    then show ?thesis using safe by (simp add: urlencodedByte_def percentDecode_plain)
  next
    case esc
    have p1: "hexDigit ((of_char c :: nat) div 16) \<noteq> CHR ''+''" by (rule hexDigit_neq [OF hi]) simp
    have p2: "hexDigit ((of_char c :: nat) mod 16) \<noteq> CHR ''+''" by (rule hexDigit_neq [OF lo]) simp
    show ?thesis using esc p1 p2
      by (simp add: urlencodedByte_def hexDigit_isHexDigit [OF hi] hexDigit_isHexDigit [OF lo] hex_pair_roundtrip del: percentDecode.simps add: percentDecode_escape)
  qed
qed

lemma urlencodedDecode_encode: "urlencodedDecode (urlencodedString s) = s"
proof -
  have "percentDecode (map (\<lambda>c. if c = CHR ''+'' then CHR '' '' else c) (urlencodedString s)) = s"
  proof (induction s)
    case Nil
    show ?case by (simp add: urlencodedString_def)
  next
    case (Cons c s)
    then show ?case by (simp add: urlencodedString_def decode_byte)
  qed
  then show ?thesis by (simp add: urlencodedDecode_def)
qed

lemma urlencodedByte_chars:
  "x \<in> set (urlencodedByte c) \<Longrightarrow> x \<noteq> CHR ''&'' \<and> x \<noteq> CHR ''='' \<and> x \<noteq> CHR ''?''"
proof -
  assume x: "x \<in> set (urlencodedByte c)"
  have hi: "(of_char c :: nat) div 16 < 16" by (rule of_char_div_16)
  have lo: "(of_char c :: nat) mod 16 < 16" by simp
  have h: "\<And>n y. n < 16 \<Longrightarrow> y \<in> {CHR ''&'', CHR ''='', CHR ''?''} \<Longrightarrow> hexDigit n \<noteq> y"
    by (rule hexDigit_neq) auto
  have s: "\<And>y. urlencodedSafe c \<Longrightarrow> y \<in> {CHR ''&'', CHR ''='', CHR ''?''} \<Longrightarrow> c \<noteq> y"
    by (rule safe_neq) auto
  from x show ?thesis
    using h [OF hi] h [OF lo] s
    by (auto simp add: urlencodedByte_def split: if_splits)
qed

lemma urlencodedString_chars:
  "x \<in> set (urlencodedString s) \<Longrightarrow> x \<noteq> CHR ''&'' \<and> x \<noteq> CHR ''='' \<and> x \<noteq> CHR ''?''"
  by (auto simp add: urlencodedString_def dest: urlencodedByte_chars)

lemma splitOn_nonempty: "splitOn sep s \<noteq> []"
  by (induction s) (auto split: list.splits)

lemma splitOn_none: "sep \<notin> set x \<Longrightarrow> splitOn sep x = [x]"
  by (induction x) auto

lemma splitOn_append: "sep \<notin> set x \<Longrightarrow> splitOn sep (x @ sep # r) = x # splitOn sep r"
  by (induction x) auto

lemma splitOn_joinWith:
  "ps \<noteq> [] \<Longrightarrow> (\<And>p. p \<in> set ps \<Longrightarrow> sep \<notin> set p) \<Longrightarrow> splitOn sep (joinWith sep ps) = ps"
proof (induction sep ps rule: joinWith.induct)
  case (1 sep)
  then show ?case by simp
next
  case (2 sep x)
  then show ?case by (simp add: splitOn_none)
next
  case (3 sep x y rest)
  then show ?case by (simp add: splitOn_append)
qed

lemma urlencodedPair_no_amp: "CHR ''&'' \<notin> set (urlencodedPair p)"
  by (cases p) (auto simp add: urlencodedPair_def dest: urlencodedString_chars)

lemma urlencodedPair_nonempty: "urlencodedPair p \<noteq> []"
  by (cases p) (simp add: urlencodedPair_def)

lemma parsePair_urlencodedPair: "parsePair (urlencodedPair p) = p"
proof (cases p)
  case (Pair n v)
  have t: "takeWhile (\<lambda>c. c \<noteq> CHR ''='') (urlencodedString n @ CHR ''='' # urlencodedString v) = urlencodedString n"
    by (subst takeWhile_append2) (auto dest: urlencodedString_chars)
  have d: "dropWhile (\<lambda>c. c \<noteq> CHR ''='') (urlencodedString n @ CHR ''='' # urlencodedString v) = CHR ''='' # urlencodedString v"
    by (subst dropWhile_append2) (auto dest: urlencodedString_chars)
  show ?thesis by (simp add: Pair urlencodedPair_def parsePair_def t d urlencodedDecode_encode)
qed

lemma urlencodedParse_toString: "urlencodedParse (URLSearchParams_toString ps) = ps"
proof (cases "ps = []")
  case True
  then show ?thesis by (simp add: urlencodedParse_def URLSearchParams_toString_def)
next
  case False
  have "splitOn (CHR ''&'') (joinWith (CHR ''&'') (map urlencodedPair ps)) = map urlencodedPair ps"
    using False by (intro splitOn_joinWith) (auto simp add: urlencodedPair_no_amp)
  moreover have "filter (\<lambda>q. q \<noteq> []) (map urlencodedPair ps) = map urlencodedPair ps"
    by (simp add: filter_id_conv urlencodedPair_nonempty)
  moreover have "map parsePair (map urlencodedPair ps) = ps"
    by (simp add: parsePair_urlencodedPair map_idI)
  ultimately show ?thesis
    by (simp add: urlencodedParse_def URLSearchParams_toString_def )
qed

lemma joinWith_chars: "x \<in> set (joinWith sep ps) \<Longrightarrow> x = sep \<or> (\<exists>p \<in> set ps. x \<in> set p)"
  by (induction sep ps rule: joinWith.induct) auto

lemma toString_no_question: "CHR ''?'' \<notin> set (URLSearchParams_toString ps)"
proof
  assume "CHR ''?'' \<in> set (URLSearchParams_toString ps)"
  then have "CHR ''?'' \<in> set (joinWith (CHR ''&'') (map urlencodedPair ps))"
    by (simp only: URLSearchParams_toString_def)
  from joinWith_chars [OF this] obtain q where "CHR ''?'' \<in> set (urlencodedPair q)" by auto
  then show False by (cases q) (auto simp add: urlencodedPair_def dest: urlencodedString_chars)
qed

lemma URLSearchParams_roundtrip: "URLSearchParams_new (URLSearchParams_toString ps) = ps"
proof -
  have "(case URLSearchParams_toString ps of [] \<Rightarrow> URLSearchParams_toString ps
          | c # cs \<Rightarrow> if c = CHR ''?'' then cs else URLSearchParams_toString ps) = URLSearchParams_toString ps"
    using toString_no_question [of ps] by (auto split: list.splits)
  then show ?thesis by (simp add: URLSearchParams_new_def urlencodedParse_toString)
qed

subsection \<open>prepareZKLogin: the nonce and the epoch\<close>

text \<open>
  C1. The session that \<open>prepareZKLogin\<close> returns satisfies
  \<open>nonce = generateNonce(publicKey, maxEpoch, randomness)\<close> over its own fields, for every
  current epoch and every draw of the keypair and of the random bytes. \<open>generateNonce\<close>
  is a function of its three arguments, so two sessions whose public key, maxEpoch and
  randomness agree carry the same nonce.
\<close>

theorem prepareZKLogin_nonce_bound:
  "(let s = prepareZKLogin generateNonce kp rb e;
        s' = prepareZKLogin generateNonce kp' rb' e'
    in LoginSession.nonce s =
         generateNonce (getPublicKey (ephemeralKeyPair s)) (LoginSession.maxEpoch s) (randomness s)
       \<and> (getPublicKey (ephemeralKeyPair s) = getPublicKey (ephemeralKeyPair s')
            \<and> LoginSession.maxEpoch s = LoginSession.maxEpoch s'
            \<and> randomness s = randomness s'
          \<longrightarrow> LoginSession.nonce s = LoginSession.nonce s'))"
  by (simp add: prepareZKLogin_def Let_def)

theorem prepareZKLogin_nonce_bound_witness:
  "(let g = (\<lambda>pk m r. bigint_toString (toBigIntBE (toSuiBytes pk)) @ bigint_toString m @ bigint_toString r);
        k = \<lparr>getPublicKey = \<lparr>toSuiBytes = [0, 7]\<rparr>, secretKey = [1]\<rparr>;
        k' = \<lparr>getPublicKey = \<lparr>toSuiBytes = [0, 7]\<rparr>, secretKey = [2]\<rparr>;
        s = prepareZKLogin g k (\<lambda>n. replicate n 3) 5;
        s' = prepareZKLogin g k' (\<lambda>n. replicate n 3) 5
    in getPublicKey (ephemeralKeyPair s) = getPublicKey (ephemeralKeyPair s')
       \<and> LoginSession.maxEpoch s = LoginSession.maxEpoch s'
       \<and> randomness s = randomness s'
       \<and> LoginSession.nonce s = g (getPublicKey (ephemeralKeyPair s)) (LoginSession.maxEpoch s) (randomness s)
       \<and> LoginSession.nonce s = LoginSession.nonce s')"
  using prepareZKLogin_nonce_bound
    [of "\<lambda>pk m r. bigint_toString (toBigIntBE (toSuiBytes pk)) @ bigint_toString m @ bigint_toString r"
        "\<lparr>getPublicKey = \<lparr>toSuiBytes = [0, 7]\<rparr>, secretKey = [1]\<rparr>" "\<lambda>n. replicate n 3" 5
        "\<lparr>getPublicKey = \<lparr>toSuiBytes = [0, 7]\<rparr>, secretKey = [2]\<rparr>" "\<lambda>n. replicate n 3" 5]
  by (simp add: prepareZKLogin_def Let_def)

text \<open>
  C5, as stated: for every current epoch \<open>\<ge> 0\<close>, maxEpoch is the current epoch plus 2. The
  sum is a sum of doubles. At the largest safe integer \<open>2 ^ 53 - 1\<close> the exact sum
  \<open>2 ^ 53 + 1\<close> is no double, and the session carries \<open>2 ^ 53\<close>.
\<close>

theorem prepareZKLogin_maxEpoch_counterexample:
  "(0::int) \<le> 9007199254740991
   \<and> LoginSession.maxEpoch
        (prepareZKLogin (\<lambda>pk m r. bigint_toString r)
           \<lparr>getPublicKey = \<lparr>toSuiBytes = []\<rparr>, secretKey = []\<rparr> (\<lambda>n. replicate n 0)
           9007199254740991) = 9007199254740992
   \<and> (9007199254740992::int) \<noteq> 9007199254740991 + 2"
  by code_simp

text \<open>
  C5, amended: for every integer current epoch from 0 to \<open>2 ^ 53 - 2\<close>, maxEpoch is the
  current epoch plus 2.
\<close>

theorem prepareZKLogin_maxEpoch:
  "0 \<le> currentEpoch \<Longrightarrow> currentEpoch \<le> 2 ^ 53 - 2 \<Longrightarrow>
   LoginSession.maxEpoch (prepareZKLogin generateNonce kp rb currentEpoch) = currentEpoch + 2"
  using number_add_exact [of currentEpoch 2] by (simp add: prepareZKLogin_def Let_def)

theorem prepareZKLogin_maxEpoch_witness:
  "(0::int) \<le> 9007199254740990 \<and> (9007199254740990::int) \<le> 2 ^ 53 - 2
   \<and> LoginSession.maxEpoch
        (prepareZKLogin (\<lambda>pk m r. bigint_toString r)
           \<lparr>getPublicKey = \<lparr>toSuiBytes = []\<rparr>, secretKey = []\<rparr> (\<lambda>n. replicate n 0)
           9007199254740990) = 9007199254740992"
  using prepareZKLogin_maxEpoch
    [of 9007199254740990 "\<lambda>pk m r. bigint_toString r"
        "\<lparr>getPublicKey = \<lparr>toSuiBytes = []\<rparr>, secretKey = []\<rparr>" "\<lambda>n. replicate n 0"]
  by simp

subsection \<open>zkLogin: the authorization request and the token\<close>

lemma remove1_hash:
  "remove1 (CHR ''#'') (hash u) = (case fragment u of None \<Rightarrow> [] | Some f \<Rightarrow> f)"
  by (simp add: hash_def split: option.splits)

lemma zkLogin_params_eq:
  "zkLogin_params env provider nonceArg loginHint promptArg =
     [(''client_id'', clientID (zkProviderDataMap env provider)),
      (''response_type'', ''id_token''),
      (''redirect_uri'', getRedirectURL env),
      (''scope'', ''openid email profile''),
      (''nonce'',
       (case nonceArg of
          None \<Rightarrow> base64url_encode (randomBytes env 20)
        | Some n \<Rightarrow> if n = [] then base64url_encode (randomBytes env 20) else n))]
     @ (case loginHint of None \<Rightarrow> [] | Some h \<Rightarrow> if h = [] then [] else [(''login_hint'', h)])
     @ (case promptArg of None \<Rightarrow> [] | Some p \<Rightarrow> [(''prompt'', prompt_string p)])"
  by (simp add: zkLogin_params_def append_param_def Let_def split: option.splits)

lemma base64url_encode_length: "length (base64url_encode bs) = (4 * length bs + 2) div 3"
  by (induction bs rule: base64url_encode.induct) (simp_all add: Let_def)

lemma zkLogin_launches:
  "fst (zkLogin env provider nonceArg loginHint promptArg) =
     url (zkProviderDataMap env provider) @ CHR ''?'' #
       URLSearchParams_toString (zkLogin_params env provider nonceArg loginHint promptArg)"
  by (simp add: zkLogin_def zkLogin_authUrl_def Let_def)

text \<open>
  C3. Once the interactive flow has handed back a redirect URI that parses as a URL,
  \<open>zkLogin\<close> throws exactly when the fragment, parsed as query parameters, has no
  \<open>id_token\<close> field or its (first) \<open>id_token\<close> field is empty, the error being
  \<open>JWT is missing\<close>; it returns \<open>t\<close> exactly when that field is present with the
  non-empty value \<open>t\<close>.
\<close>

theorem zkLogin_token_iff:
  assumes "launchWebAuthFlow env (fst (zkLogin env provider nonceArg loginHint promptArg)) = Inr response"
    and "newURL env response = Inr responseURL"
  shows "(let params = URLSearchParams_new (case fragment responseURL of None \<Rightarrow> [] | Some f \<Rightarrow> f);
              result = snd (zkLogin env provider nonceArg loginHint promptArg)
          in ((\<exists>e. result = Inl e) \<longleftrightarrow>
                 ''id_token'' \<notin> fst ` set params \<or> map_of params ''id_token'' = Some [])
             \<and> (result = Inr t \<longleftrightarrow> map_of params ''id_token'' = Some t \<and> t \<noteq> [])
             \<and> (result = Inl e \<longrightarrow> e = Error ''JWT is missing''))"
proof -
  let ?params = "URLSearchParams_new (case fragment responseURL of None \<Rightarrow> [] | Some f \<Rightarrow> f)"
  have absent: "''id_token'' \<notin> fst ` set ?params \<longleftrightarrow> map_of ?params ''id_token'' = None"
    by (simp only: map_of_eq_None_iff)
  have result: "snd (zkLogin env provider nonceArg loginHint promptArg) =
      (case map_of ?params ''id_token'' of
         None \<Rightarrow> Inl (Error ''JWT is missing'')
       | Some t \<Rightarrow> if t = [] then Inl (Error ''JWT is missing'') else Inr t)"
    using assms by (simp add: zkLogin_def Let_def remove1_hash get_param_def)
  show ?thesis
    unfolding Let_def absent result
    by (cases "map_of ?params ''id_token''") auto
qed

theorem zkLogin_token_iff_witness:
  "(let env = \<lparr>zkProviderDataMap = (\<lambda>p::unit. \<lparr>clientID = ''cid'', url = ''https://idp.example/auth''\<rparr>),
               getRedirectURL = ''https://ext.example/'',
               launchWebAuthFlow = (\<lambda>u. Inr ''https://ext.example/#state=abc''),
               newURL = (\<lambda>s. Inr \<lparr>fragment = Some ''state=abc''\<rparr>),
               randomBytes = (\<lambda>n. replicate n 0)\<rparr>
    in launchWebAuthFlow env (fst (zkLogin env () None None None)) = Inr ''https://ext.example/#state=abc''
       \<and> newURL env ''https://ext.example/#state=abc'' = Inr \<lparr>fragment = Some ''state=abc''\<rparr>
       \<and> URLSearchParams_new ''state=abc'' = [(''state'', ''abc'')]
       \<and> snd (zkLogin env () None None None) = Inl (Error ''JWT is missing''))
   \<and> (let env = \<lparr>zkProviderDataMap = (\<lambda>p::unit. \<lparr>clientID = ''cid'', url = ''https://idp.example/auth''\<rparr>),
               getRedirectURL = ''https://ext.example/'',
               launchWebAuthFlow = (\<lambda>u. Inr ''https://ext.example/#state=abc&id_token=a.b.c''),
               newURL = (\<lambda>s. Inr \<lparr>fragment = Some ''state=abc&id_token=a.b.c''\<rparr>),
               randomBytes = (\<lambda>n. replicate n 0)\<rparr>
    in launchWebAuthFlow env (fst (zkLogin env () None None None)) = Inr ''https://ext.example/#state=abc&id_token=a.b.c''
       \<and> newURL env ''https://ext.example/#state=abc&id_token=a.b.c'' = Inr \<lparr>fragment = Some ''state=abc&id_token=a.b.c''\<rparr>
       \<and> URLSearchParams_new ''state=abc&id_token=a.b.c'' = [(''state'', ''abc''), (''id_token'', ''a.b.c'')]
       \<and> snd (zkLogin env () None None None) = Inr ''a.b.c'')"
proof -
  let ?e1 = "\<lparr>zkProviderDataMap = (\<lambda>p::unit. \<lparr>clientID = ''cid'', url = ''https://idp.example/auth''\<rparr>),
               getRedirectURL = ''https://ext.example/'',
               launchWebAuthFlow = (\<lambda>u. Inr ''https://ext.example/#state=abc''),
               newURL = (\<lambda>s. Inr \<lparr>fragment = Some ''state=abc''\<rparr>),
               randomBytes = (\<lambda>n. replicate n 0)\<rparr>"
  let ?e2 = "\<lparr>zkProviderDataMap = (\<lambda>p::unit. \<lparr>clientID = ''cid'', url = ''https://idp.example/auth''\<rparr>),
               getRedirectURL = ''https://ext.example/'',
               launchWebAuthFlow = (\<lambda>u. Inr ''https://ext.example/#state=abc&id_token=a.b.c''),
               newURL = (\<lambda>s. Inr \<lparr>fragment = Some ''state=abc&id_token=a.b.c''\<rparr>),
               randomBytes = (\<lambda>n. replicate n 0)\<rparr>"
  have p1: "URLSearchParams_new ''state=abc'' = [(''state'', ''abc'')]" by code_simp
  have p2: "URLSearchParams_new ''state=abc&id_token=a.b.c'' = [(''state'', ''abc''), (''id_token'', ''a.b.c'')]"
    by code_simp
  have l1: "launchWebAuthFlow ?e1 (fst (zkLogin ?e1 () None None None)) = Inr ''https://ext.example/#state=abc''"
    by simp
  have u1: "newURL ?e1 ''https://ext.example/#state=abc'' = Inr \<lparr>fragment = Some ''state=abc''\<rparr>"
    by simp
  have l2: "launchWebAuthFlow ?e2 (fst (zkLogin ?e2 () None None None)) = Inr ''https://ext.example/#state=abc&id_token=a.b.c''"
    by simp
  have u2: "newURL ?e2 ''https://ext.example/#state=abc&id_token=a.b.c'' = Inr \<lparr>fragment = Some ''state=abc&id_token=a.b.c''\<rparr>"
    by simp
  have r1: "snd (zkLogin ?e1 () None None None) = Inl (Error ''JWT is missing'')"
  proof -
    from zkLogin_token_iff [OF l1 u1, of "[]" "Error ''JWT is missing''"]
    have "\<exists>e. snd (zkLogin ?e1 () None None None) = Inl e"
      and "\<And>e. snd (zkLogin ?e1 () None None None) = Inl e \<Longrightarrow> True"
      by (simp_all add: p1 Let_def)
    then obtain e where e: "snd (zkLogin ?e1 () None None None) = Inl e" by blast
    from zkLogin_token_iff [OF l1 u1, of "[]" e] e have "e = Error ''JWT is missing''"
      by (simp add: Let_def)
    with e show ?thesis by simp
  qed
  have r2: "snd (zkLogin ?e2 () None None None) = Inr ''a.b.c''"
    using zkLogin_token_iff [OF l2 u2, of "''a.b.c''" "Error ''JWT is missing''"]
    by (simp add: p2 Let_def)
  show ?thesis
    unfolding Let_def using l1 u1 p1 r1 l2 u2 p2 r2 by (intro conjI) 
qed

text \<open>
  C6, as stated: the authorization URL carries \<open>login_hint\<close> if and only if the argument is
  provided. The guard is \<^verbatim>\<open>if (loginHint)\<close>: a login hint that is provided as the empty string
  adds no parameter.
\<close>

theorem zkLogin_authUrl_counterexample:
  "fst (zkLogin
         \<lparr>zkProviderDataMap = (\<lambda>p::unit. \<lparr>clientID = ''cid'', url = ''https://idp.example/auth''\<rparr>),
          getRedirectURL = ''https://ext.example/'',
          launchWebAuthFlow = (\<lambda>u. Inl (Rejected ''closed'')),
          newURL = (\<lambda>s. Inl (TypeError ''Invalid URL'')),
          randomBytes = (\<lambda>n. replicate n 0)\<rparr>
         () (Some ''n1'') (Some []) None)
   = ''https://idp.example/auth?client_id=cid&response_type=id_token&redirect_uri=https%3A%2F%2Fext.example%2F&scope=openid+email+profile&nonce=n1''
   \<and> map_of (URLSearchParams_new
        ''client_id=cid&response_type=id_token&redirect_uri=https%3A%2F%2Fext.example%2F&scope=openid+email+profile&nonce=n1'')
        ''login_hint'' = None"
  by code_simp

text \<open>
  C6, amended: the authorization URL is the provider's URL, a \<open>?\<close> and a query string
  that parses back to exactly \<open>client_id\<close> (the provider's client id),
  \<open>response_type=id_token\<close>, \<open>redirect_uri\<close>, \<open>scope=openid email profile\<close> and \<open>nonce\<close>,
  in this order, then \<open>login_hint\<close> if and only if a non-empty login hint is given, then
  \<open>prompt\<close> if and only if a prompt is given.
\<close>

theorem zkLogin_authUrl_params:
  "fst (zkLogin env provider nonceArg loginHint promptArg) =
     url (zkProviderDataMap env provider) @ CHR ''?'' #
       URLSearchParams_toString (zkLogin_params env provider nonceArg loginHint promptArg)
   \<and> URLSearchParams_new
        (URLSearchParams_toString (zkLogin_params env provider nonceArg loginHint promptArg))
       = [(''client_id'', clientID (zkProviderDataMap env provider)),
          (''response_type'', ''id_token''),
          (''redirect_uri'', getRedirectURL env),
          (''scope'', ''openid email profile''),
          (''nonce'',
           (case nonceArg of
              None \<Rightarrow> base64url_encode (randomBytes env 20)
            | Some n \<Rightarrow> if n = [] then base64url_encode (randomBytes env 20) else n))]
         @ (case loginHint of
              None \<Rightarrow> []
            | Some h \<Rightarrow> if h = [] then [] else [(''login_hint'', h)])
         @ (case promptArg of None \<Rightarrow> [] | Some p \<Rightarrow> [(''prompt'', prompt_string p)])"
  by (simp only: URLSearchParams_roundtrip zkLogin_params_eq [symmetric] zkLogin_launches)

lemma zkLogin_result:
  "snd (zkLogin env provider nonceArg loginHint promptArg) =
     (case launchWebAuthFlow env (fst (zkLogin env provider nonceArg loginHint promptArg)) of
        Inl e \<Rightarrow> Inl e
      | Inr response \<Rightarrow>
          (case newURL env response of
             Inl e \<Rightarrow> Inl e
           | Inr responseURL \<Rightarrow>
               (case map_of
                       (URLSearchParams_new
                          (case fragment responseURL of None \<Rightarrow> [] | Some f \<Rightarrow> f))
                       ''id_token'' of
                  None \<Rightarrow> Inl (Error ''JWT is missing'')
                | Some t \<Rightarrow> if t = [] then Inl (Error ''JWT is missing'') else Inr t)))"
  by (simp add: zkLogin_def Let_def remove1_hash get_param_def split: sum.splits)

text \<open>
  C10. When the nonce argument is omitted or empty, \<open>zkLogin\<close> does not fail on that
  account. It behaves as if the caller had passed the base64url encoding of the 20 bytes
  that \<^verbatim>\<open>randomBytes(20)\<close> draws: it launches the flow with a URL whose \<open>nonce\<close> parameter is
  that encoding, 27 characters long, and no keypair and no epoch enters it. It then returns
  the token whenever the flow hands back a redirect URI whose fragment holds a non-empty
  \<open>id_token\<close>; and when it fails, the failure is the rejection of \<^verbatim>\<open>launchWebAuthFlow\<close>, the
  error of \<^verbatim>\<open>new URL\<close>, or \<open>JWT is missing\<close> for a fragment without a non-empty \<open>id_token\<close>.
\<close>

theorem zkLogin_default_nonce:
  assumes "nonceArg = None \<or> nonceArg = Some []"
  shows "zkLogin env provider nonceArg loginHint promptArg
           = zkLogin env provider (Some (base64url_encode (randomBytes env 20))) loginHint promptArg
     \<and> fst (zkLogin env provider nonceArg loginHint promptArg) =
         url (zkProviderDataMap env provider) @ CHR ''?'' #
           URLSearchParams_toString (zkLogin_params env provider nonceArg loginHint promptArg)
     \<and> map_of (URLSearchParams_new
                 (URLSearchParams_toString (zkLogin_params env provider nonceArg loginHint promptArg)))
          ''nonce'' = Some (base64url_encode (randomBytes env 20))
     \<and> (length (randomBytes env 20) = 20 \<longrightarrow> length (base64url_encode (randomBytes env 20)) = 27)
     \<and> (launchWebAuthFlow env (fst (zkLogin env provider nonceArg loginHint promptArg)) = Inr response
          \<and> newURL env response = Inr responseURL
          \<and> map_of (URLSearchParams_new (case fragment responseURL of None \<Rightarrow> [] | Some f \<Rightarrow> f))
               ''id_token'' = Some t
          \<and> t \<noteq> []
        \<longrightarrow> snd (zkLogin env provider nonceArg loginHint promptArg) = Inr t)
     \<and> (snd (zkLogin env provider nonceArg loginHint promptArg) = Inl e \<longrightarrow>
          launchWebAuthFlow env (fst (zkLogin env provider nonceArg loginHint promptArg)) = Inl e
          \<or> (\<exists>r. launchWebAuthFlow env (fst (zkLogin env provider nonceArg loginHint promptArg)) = Inr r
                 \<and> (newURL env r = Inl e
                     \<or> (\<exists>u. newURL env r = Inr u \<and> e = Error ''JWT is missing''
                            \<and> (case map_of
                                        (URLSearchParams_new
                                           (case fragment u of None \<Rightarrow> [] | Some f \<Rightarrow> f))
                                        ''id_token'' of
                                   None \<Rightarrow> True
                                 | Some t' \<Rightarrow> t' = [])))))"
proof -
  have p: "zkLogin_params env provider nonceArg loginHint promptArg
         = zkLogin_params env provider (Some (base64url_encode (randomBytes env 20))) loginHint promptArg"
    using assms by (auto simp add: zkLogin_params_eq)
  have n: "map_of (zkLogin_params env provider nonceArg loginHint promptArg) ''nonce''
          = Some (base64url_encode (randomBytes env 20))"
    using assms by (auto simp add: zkLogin_params_eq)
  have z: "zkLogin env provider nonceArg loginHint promptArg
           = zkLogin env provider (Some (base64url_encode (randomBytes env 20))) loginHint promptArg"
    by (simp add: zkLogin_def zkLogin_authUrl_def p)
  have m: "map_of (URLSearchParams_new
                 (URLSearchParams_toString (zkLogin_params env provider nonceArg loginHint promptArg)))
          ''nonce'' = Some (base64url_encode (randomBytes env 20))"
    by (simp only: URLSearchParams_roundtrip n)
  have l: "length (randomBytes env 20) = 20 \<longrightarrow> length (base64url_encode (randomBytes env 20)) = 27"
    by (simp add: base64url_encode_length)
  have s: "launchWebAuthFlow env (fst (zkLogin env provider nonceArg loginHint promptArg)) = Inr response
          \<and> newURL env response = Inr responseURL
          \<and> map_of (URLSearchParams_new (case fragment responseURL of None \<Rightarrow> [] | Some f \<Rightarrow> f))
               ''id_token'' = Some t
          \<and> t \<noteq> []
        \<longrightarrow> snd (zkLogin env provider nonceArg loginHint promptArg) = Inr t"
    by (subst zkLogin_result) simp
  have f: "snd (zkLogin env provider nonceArg loginHint promptArg) = Inl e \<longrightarrow>
          launchWebAuthFlow env (fst (zkLogin env provider nonceArg loginHint promptArg)) = Inl e
          \<or> (\<exists>r. launchWebAuthFlow env (fst (zkLogin env provider nonceArg loginHint promptArg)) = Inr r
                 \<and> (newURL env r = Inl e
                     \<or> (\<exists>u. newURL env r = Inr u \<and> e = Error ''JWT is missing''
                            \<and> (case map_of
                                        (URLSearchParams_new
                                           (case fragment u of None \<Rightarrow> [] | Some f \<Rightarrow> f))
                                        ''id_token'' of
                                   None \<Rightarrow> True
                                 | Some t' \<Rightarrow> t' = []))))"
    by (subst zkLogin_result) (auto split: sum.splits option.splits if_splits)
  from z zkLogin_launches m l s f show ?thesis by (intro conjI)
qed

theorem zkLogin_default_nonce_witness:
  "(let env = \<lparr>zkProviderDataMap = (\<lambda>p::unit. \<lparr>clientID = ''cid'', url = ''https://idp.example/auth''\<rparr>),
               getRedirectURL = ''https://ext.example/'',
               launchWebAuthFlow = (\<lambda>u. Inr ''https://ext.example/#id_token=a.b.c''),
               newURL = (\<lambda>s. Inr \<lparr>fragment = Some ''id_token=a.b.c''\<rparr>),
               randomBytes = (\<lambda>n. replicate n 255)\<rparr>
    in length (randomBytes env 20) = 20
       \<and> base64url_encode (randomBytes env 20) = ''__________________________8''
       \<and> map_of (URLSearchParams_new (URLSearchParams_toString (zkLogin_params env () None None None)))
            ''nonce'' = Some ''__________________________8''
       \<and> length (base64url_encode (randomBytes env 20)) = 27
       \<and> zkLogin env () None None None = zkLogin env () (Some ''__________________________8'') None None
       \<and> launchWebAuthFlow env (fst (zkLogin env () None None None))
           = Inr ''https://ext.example/#id_token=a.b.c''
       \<and> newURL env ''https://ext.example/#id_token=a.b.c'' = Inr \<lparr>fragment = Some ''id_token=a.b.c''\<rparr>
       \<and> map_of (URLSearchParams_new ''id_token=a.b.c'') ''id_token'' = Some ''a.b.c''
       \<and> snd (zkLogin env () None None None) = Inr ''a.b.c'')
   \<and> (let env = \<lparr>zkProviderDataMap = (\<lambda>p::unit. \<lparr>clientID = ''cid'', url = ''https://idp.example/auth''\<rparr>),
               getRedirectURL = ''https://ext.example/'',
               launchWebAuthFlow = (\<lambda>u. Inl (Rejected ''The user did not approve access.'')),
               newURL = (\<lambda>s. Inl (TypeError ''Invalid URL'')),
               randomBytes = (\<lambda>n. replicate n 255)\<rparr>
       in snd (zkLogin env () (Some []) None None) = Inl (Rejected ''The user did not approve access.'')
          \<and> launchWebAuthFlow env (fst (zkLogin env () (Some []) None None))
              = Inl (Rejected ''The user did not approve access.''))"
proof -
  let ?env = "\<lparr>zkProviderDataMap = (\<lambda>p::unit. \<lparr>clientID = ''cid'', url = ''https://idp.example/auth''\<rparr>),
               getRedirectURL = ''https://ext.example/'',
               launchWebAuthFlow = (\<lambda>u. Inr ''https://ext.example/#id_token=a.b.c''),
               newURL = (\<lambda>s. Inr \<lparr>fragment = Some ''id_token=a.b.c''\<rparr>),
               randomBytes = (\<lambda>n. replicate n 255)\<rparr>"
  let ?bad = "\<lparr>zkProviderDataMap = (\<lambda>p::unit. \<lparr>clientID = ''cid'', url = ''https://idp.example/auth''\<rparr>),
               getRedirectURL = ''https://ext.example/'',
               launchWebAuthFlow = (\<lambda>u. Inl (Rejected ''The user did not approve access.'')),
               newURL = (\<lambda>s. Inl (TypeError ''Invalid URL'')),
               randomBytes = (\<lambda>n. replicate n 255)\<rparr>"
  have r: "randomBytes ?env 20 =
      [255, 255, 255, 255, 255, 255, 255, 255, 255, 255,
       255, 255, 255, 255, 255, 255, 255, 255, 255, 255]"
    by (simp add: eval_nat_numeral)
  have c: "char_of (56 :: nat) = CHR ''8''" by code_simp
  have b: "base64url_encode (randomBytes ?env 20) = ''__________________________8''"
    by (simp only: r) (simp add: base64urlChar_def c)
  have l: "length (randomBytes ?env 20) = 20" by (simp only: r) simp
  have la: "launchWebAuthFlow ?env (fst (zkLogin ?env () None None None))
              = Inr ''https://ext.example/#id_token=a.b.c''"
    by simp
  have nu: "newURL ?env ''https://ext.example/#id_token=a.b.c'' = Inr \<lparr>fragment = Some ''id_token=a.b.c''\<rparr>"
    by simp
  have tk: "map_of (URLSearchParams_new ''id_token=a.b.c'') ''id_token'' = Some ''a.b.c''"
    by code_simp
  have tk': "map_of (URLSearchParams_new
                 (case fragment \<lparr>fragment = Some ''id_token=a.b.c''\<rparr> of None \<Rightarrow> [] | Some f \<Rightarrow> f))
               ''id_token'' = Some ''a.b.c''"
    using tk by simp
  have ne: "''a.b.c'' \<noteq> []" by simp
  note t = zkLogin_default_nonce
    [where nonceArg = None and env = ?env and provider = "()" and loginHint = None
       and promptArg = None and response = "''https://ext.example/#id_token=a.b.c''"
       and responseURL = "\<lparr>fragment = Some ''id_token=a.b.c''\<rparr>" and t = "''a.b.c''",
     OF disjI1 [OF refl]]
  note t1 = t [THEN conjunct1]
  note t3 = t [THEN conjunct2, THEN conjunct2, THEN conjunct1]
  note t4 = t [THEN conjunct2, THEN conjunct2, THEN conjunct2, THEN conjunct1, THEN mp, OF l]
  note t5 = t [THEN conjunct2, THEN conjunct2, THEN conjunct2, THEN conjunct2, THEN conjunct1,
               THEN mp, OF conjI [OF la conjI [OF nu conjI [OF tk' ne]]]]
  have fb: "snd (zkLogin ?bad () (Some []) None None) = Inl (Rejected ''The user did not approve access.'')"
    by (simp add: zkLogin_def)
  note u = zkLogin_default_nonce
    [where nonceArg = "Some []" and env = ?bad and provider = "()" and loginHint = None
       and promptArg = None and e = "Rejected ''The user did not approve access.''",
     OF disjI2 [OF refl]]
  note u6 = u [THEN conjunct2, THEN conjunct2, THEN conjunct2, THEN conjunct2, THEN conjunct2,
               THEN mp, OF fb]
  have lb: "launchWebAuthFlow ?bad (fst (zkLogin ?bad () (Some []) None None))
              = Inl (Rejected ''The user did not approve access.'')"
    using u6 by simp
  show ?thesis
    unfolding Let_def
    using l b t3 [unfolded b] t4 t1 [unfolded b] la nu tk t5 fb lb by (intro conjI)
qed

subsection \<open>fetchSalt\<close>

text \<open>
  C7. For every token, \<open>fetchSalt\<close> makes one call, a POST to the salt registry with the
  JSON body \<open>{"token": token}\<close>; when the call succeeds and the response parses to an object
  with a \<open>salt\<close> field, it returns the value of that field.
\<close>

theorem fetchSalt_posts_token:
  "fst (fetchSalt fetchWithSentry token) = [fetchSalt_request token]
   \<and> fetchSalt_request token =
       (''fetchUserSalt'', ''http://salt.api-devnet.mystenlabs.com/get_salt'',
        \<lparr>method' = ''POST'', headers = [(''Content-Type'', ''application/json'')],
         body = JObject [(''token'', JString token)]\<rparr>)
   \<and> (fetchWithSentry (fetchSalt_request token) = Inr response
        \<and> json response = Inr (JObject members) \<and> map_of members ''salt'' = Some v
      \<longrightarrow> snd (fetchSalt fetchWithSentry token) = Inr (Value v))"
  by (simp add: fetchSalt_def fetchSalt_request_def saltRegistryUrl_def getProperty_def)

theorem fetchSalt_posts_token_witness:
  "(let fetchWithSentry = (\<lambda>call. Inr \<lparr>json = Inr (JObject [(''salt'', JString ''12345'')])\<rparr>)
    in fetchWithSentry (fetchSalt_request ''a.b.c'')
         = Inr \<lparr>json = Inr (JObject [(''salt'', JString ''12345'')])\<rparr>
       \<and> json \<lparr>json = Inr (JObject [(''salt'', JString ''12345'')])\<rparr>
           = Inr (JObject [(''salt'', JString ''12345'')])
       \<and> map_of [(''salt'', JString ''12345'')] ''salt'' = Some (JString ''12345'')
       \<and> snd (fetchSalt fetchWithSentry ''a.b.c'') = Inr (Value (JString ''12345'')))"
  using fetchSalt_posts_token
    [of "\<lambda>call. Inr \<lparr>json = Inr (JObject [(''salt'', JString ''12345'')])\<rparr>" "''a.b.c''"
        "\<lparr>json = Inr (JObject [(''salt'', JString ''12345'')])\<rparr>"
        "[(''salt'', JString ''12345'')]" "JString ''12345''"]
  by simp

text \<open>
  C8, as stated: a response that lacks the \<open>salt\<close> field, or carries a malformed one, makes
  \<open>fetchSalt\<close> fail with a ServiceError. The body returns \<^verbatim>\<open>(await response.json()).salt\<close>
  as it is: for the response \<open>{"error": "no salt"}\<close> it returns \<^verbatim>\<open>undefined\<close>, for
  \<open>{"salt": []}\<close> it returns the array.
\<close>

theorem fetchSalt_missing_salt_counterexample:
  "snd (fetchSalt (\<lambda>call. Inr \<lparr>json = Inr (JObject [(''error'', JString ''no salt'')])\<rparr>) ''a.b.c'')
     = Inr Undefined
   \<and> snd (fetchSalt (\<lambda>call. Inr \<lparr>json = Inr (JObject [(''salt'', JArray [])])\<rparr>) ''a.b.c'')
     = Inr (Value (JArray []))"
  by (simp add: fetchSalt_def getProperty_def)

text \<open>
  C8, amended: when the call succeeds and the response parses to a JSON object, \<open>fetchSalt\<close>
  returns successfully, with the value of the \<open>salt\<close> field whatever its shape, and with
  \<^verbatim>\<open>undefined\<close> when the field is missing. It fails only when \<open>fetchWithSentry\<close> rejects,
  when \<^verbatim>\<open>response.json()\<close> rejects, or when the body is \<^verbatim>\<open>null\<close>.
\<close>

theorem fetchSalt_unvalidated:
  "(fetchWithSentry (fetchSalt_request token) = Inr response
      \<and> json response = Inr (JObject members)
    \<longrightarrow> snd (fetchSalt fetchWithSentry token)
          = Inr (case map_of members ''salt'' of None \<Rightarrow> Undefined | Some v \<Rightarrow> Value v))
   \<and> (snd (fetchSalt fetchWithSentry token) = Inl e \<longrightarrow>
        fetchWithSentry (fetchSalt_request token) = Inl e
        \<or> (\<exists>r. fetchWithSentry (fetchSalt_request token) = Inr r
               \<and> (json r = Inl e \<or> json r = Inr JNull)))"
  by (auto simp add: fetchSalt_def getProperty_def split: sum.splits json.splits option.splits)

theorem fetchSalt_unvalidated_witness:
  "(let fetchWithSentry = (\<lambda>call. Inr \<lparr>json = Inr (JObject [(''error'', JString ''no salt'')])\<rparr>)
    in fetchWithSentry (fetchSalt_request ''a.b.c'')
         = Inr \<lparr>json = Inr (JObject [(''error'', JString ''no salt'')])\<rparr>
       \<and> json \<lparr>json = Inr (JObject [(''error'', JString ''no salt'')])\<rparr>
           = Inr (JObject [(''error'', JString ''no salt'')])
       \<and> snd (fetchSalt fetchWithSentry ''a.b.c'') = Inr Undefined)
   \<and> (let fetchWithSentry = (\<lambda>call. Inl (Rejected ''Failed to fetch''))
       in snd (fetchSalt fetchWithSentry ''a.b.c'') = Inl (Rejected ''Failed to fetch'')
          \<and> fetchWithSentry (fetchSalt_request ''a.b.c'') = Inl (Rejected ''Failed to fetch''))"
  using fetchSalt_unvalidated
    [of "\<lambda>call. Inr \<lparr>json = Inr (JObject [(''error'', JString ''no salt'')])\<rparr>" "''a.b.c''"
        "\<lparr>json = Inr (JObject [(''error'', JString ''no salt'')])\<rparr>"
        "[(''error'', JString ''no salt'')]" "Rejected ''Failed to fetch''"]
    fetchSalt_unvalidated
    [of "\<lambda>call. Inl (Rejected ''Failed to fetch'')" "''a.b.c''"
        "\<lparr>json = Inr JNull\<rparr>" "[]" "Rejected ''Failed to fetch''"]
  by (simp add: fetchSalt_def)

subsection \<open>createPartialZKSignature\<close>

lemma toBigIntBE_leading_zero: "toBigIntBE (0 # bs) = toBigIntBE bs"
  by (simp add: toBigIntBE_def)

text \<open>
  C2. For every \<open>WalletInputs\<close>, \<open>createPartialZKSignature\<close> makes one call, a POST whose
  JSON body has exactly the fields \<open>jwt\<close>, \<open>eph_public_key\<close>, \<open>max_epoch\<close>, \<open>jwt_randomness\<close>,
  \<open>subject_pin\<close> and \<open>key_claim_name\<close>, the last being \<open>sub\<close> when \<open>keyClaimName\<close> is
  omitted. \<open>eph_public_key\<close> is a string of decimal digits, the big-endian unsigned integer
  over the key's Sui bytes; reading the digits back and writing the integer big-endian
  into as many bytes as the key has gives the key's bytes again. (The width is needed:
  by \<open>toBigIntBE_leading_zero\<close> the integer alone does not tell leading zero bytes.)
\<close>

theorem createPartialZKSignature_request_body:
  "fst (createPartialZKSignature fetchWithSentry inputs) = [createPartialZKSignature_request inputs]
   \<and> createPartialZKSignature_request inputs =
       (''createZKProofs'', ''http://185.209.177.123:8000/test/zkp'',
        \<lparr>method' = ''POST'', headers = [(''Content-Type'', ''application/json'')],
         body = JObject
           [(''jwt'', JString (jwt inputs)),
            (''eph_public_key'',
             JString (bigint_toString (toBigIntBE (toSuiBytes (ephemeralPublicKey inputs))))),
            (''max_epoch'', JNumber (WalletInputs.maxEpoch inputs)),
            (''jwt_randomness'', JString (bigint_toString (jwtRandomness inputs))),
            (''subject_pin'', JString (bigint_toString (userSalt inputs))),
            (''key_claim_name'',
             JString (case keyClaimName inputs of
                        None \<Rightarrow> ''sub'' | Some sub \<Rightarrow> ''sub'' | Some email \<Rightarrow> ''email''))]\<rparr>)
   \<and> list_all isDigit (bigint_toString (toBigIntBE (toSuiBytes (ephemeralPublicKey inputs))))
   \<and> toBufferBE
        (parseDecimal (bigint_toString (toBigIntBE (toSuiBytes (ephemeralPublicKey inputs)))))
        (length (toSuiBytes (ephemeralPublicKey inputs)))
       = toSuiBytes (ephemeralPublicKey inputs)"
  by (simp add: createPartialZKSignature_def createPartialZKSignature_request_def
      zkProofsServerUrl_def key_digits key_roundtrip split: option.splits keyClaim.splits)

text \<open>
  C9, as stated: a proof-service response that misses a required field is not returned as
  a success. The body returns \<^verbatim>\<open>response.json()\<close> as it is: the response
  \<open>{"address_seed": "1"}\<close> is returned, though three of the four fields are missing.
\<close>

theorem createPartialZKSignature_shape_counterexample:
  "snd (createPartialZKSignature
          (\<lambda>call. Inr \<lparr>json = Inr (JObject [(''address_seed'', JString ''1'')])\<rparr>)
          \<lparr>jwt = ''a.b.c'', ephemeralPublicKey = \<lparr>toSuiBytes = [0, 1]\<rparr>, maxEpoch = 12,
           jwtRandomness = 5, userSalt = 7, keyClaimName = None\<rparr>)
     = Inr (JObject [(''address_seed'', JString ''1'')])
   \<and> \<not> hasRequiredFields (JObject [(''address_seed'', JString ''1'')])"
  by (simp add: createPartialZKSignature_def hasRequiredFields_def)

text \<open>
  C9, amended: when the call succeeds, \<open>createPartialZKSignature\<close> returns what
  \<^verbatim>\<open>response.json()\<close> gives, the parsed body unchanged or its rejection, whether or not the
  fields \<open>proof_points\<close>, \<open>address_seed\<close>, \<open>claims\<close> and \<open>header_base64\<close> are present.
\<close>

theorem createPartialZKSignature_unvalidated:
  "fetchWithSentry (createPartialZKSignature_request inputs) = Inr response \<Longrightarrow>
   snd (createPartialZKSignature fetchWithSentry inputs) = json response"
  by (simp add: createPartialZKSignature_def)

theorem createPartialZKSignature_unvalidated_witness:
  "(let fetchWithSentry = (\<lambda>call. Inr \<lparr>json = Inr (JObject [(''address_seed'', JString ''1'')])\<rparr>);
        inputs = \<lparr>jwt = ''a.b.c'', ephemeralPublicKey = \<lparr>toSuiBytes = [0, 1]\<rparr>, maxEpoch = 12,
                  jwtRandomness = 5, userSalt = 7, keyClaimName = None\<rparr>
    in fetchWithSentry (createPartialZKSignature_request inputs)
         = Inr \<lparr>json = Inr (JObject [(''address_seed'', JString ''1'')])\<rparr>
       \<and> snd (createPartialZKSignature fetchWithSentry inputs)
           = Inr (JObject [(''address_seed'', JString ''1'')]))"
  using createPartialZKSignature_unvalidated
    [of "\<lambda>call. Inr \<lparr>json = Inr (JObject [(''address_seed'', JString ''1'')])\<rparr>"
        "\<lparr>jwt = ''a.b.c'', ephemeralPublicKey = \<lparr>toSuiBytes = [0, 1]\<rparr>, maxEpoch = 12,
          jwtRandomness = 5, userSalt = 7, keyClaimName = None\<rparr>"
        "\<lparr>json = Inr (JObject [(''address_seed'', JString ''1'')])\<rparr>"]
  by simp

subsection \<open>The login attempt\<close>

text \<open>
  C4. With the salt call and the proof call issued for the same token and completing in
  either order, the attempt succeeds, with both results, exactly when both calls succeed;
  when either fails the attempt fails, carrying a failure of one of the two calls; and
  after only one completion the attempt is never a success.
\<close>

theorem loginAttempt_all_or_nothing:
  "(loginAttempt resolveSalt assembleProof saltFirst token = Some (Inr (s, p))
      \<longleftrightarrow> resolveSalt token = Inr s \<and> assembleProof token = Inr p)
   \<and> (resolveSalt token = Inl e \<or> assembleProof token = Inl e \<longrightarrow>
        (\<exists>e'. loginAttempt resolveSalt assembleProof saltFirst token = Some (Inl e')
              \<and> (resolveSalt token = Inl e' \<or> assembleProof token = Inl e')))
   \<and> outcome (complete pending (SaltDone (resolveSalt token))) \<noteq> Some (Inr (s, p))
   \<and> outcome (complete pending (ProofDone (assembleProof token))) \<noteq> Some (Inr (s, p))"
  by (cases "resolveSalt token"; cases "assembleProof token"; cases saltFirst)
     (auto simp add: loginAttempt_def outcome_def complete_def pending_def)

theorem loginAttempt_all_or_nothing_witness:
  "(let resolveSalt = (\<lambda>t. Inr ''12345'');
        assembleProof = (\<lambda>t. Inl (Rejected ''timeout'')) :: string \<Rightarrow> error + json
    in resolveSalt ''a.b.c'' = Inr ''12345''
       \<and> assembleProof ''a.b.c'' = Inl (Rejected ''timeout'')
       \<and> loginAttempt resolveSalt assembleProof True ''a.b.c'' = Some (Inl (Rejected ''timeout''))
       \<and> loginAttempt resolveSalt assembleProof False ''a.b.c'' = Some (Inl (Rejected ''timeout'')))"
  using loginAttempt_all_or_nothing
    [of "\<lambda>t. Inr ''12345''" "(\<lambda>t. Inl (Rejected ''timeout'')) :: string \<Rightarrow> error + json"
        True "''a.b.c''" "''12345''" JNull "Rejected ''timeout''"]
    loginAttempt_all_or_nothing
    [of "\<lambda>t. Inr ''12345''" "(\<lambda>t. Inl (Rejected ''timeout'')) :: string \<Rightarrow> error + json"
        False "''a.b.c''" "''12345''" JNull "Rejected ''timeout''"]
  by (simp add: Let_def)

end
